theory Spec2Isabelle
  imports Main "HOL-Library.Sublist"
begin

section \<open>Strings\<close>

text \<open>
  The program is \<^verbatim>\<open>src/health_bot.py\<close>. A Python \<^verbatim>\<open>str\<close> is a sequence of Unicode
  code points, here a list of natural numbers: \<open>length\<close> is \<^verbatim>\<open>len\<close>, and an emoji of
  the program's literals is the code points it is written with. \<open>ascii\<close> gives the
  Python string of an ASCII literal.
\<close>

type_synonym code_point = nat

type_synonym str = "code_point list"

definition ascii :: "string \<Rightarrow> str" where
  "ascii s = map of_char s"

text \<open>
  The methods of \<^verbatim>\<open>str\<close> that depend on the Unicode character database are Python's,
  not the program's: \<^verbatim>\<open>s.lower()\<close>, \<^verbatim>\<open>c.isdigit()\<close> and \<^verbatim>\<open>c.isspace()\<close>. Their
  tables are not written out. They are the fields of a record that every function
  calling one of them takes as its first argument, so what is proved holds whatever
  the tables are.
\<close>

record python_str =
  lower :: "str \<Rightarrow> str"
  isdigit :: "code_point \<Rightarrow> bool"
  isspace :: "code_point \<Rightarrow> bool"

text \<open>
  On ASCII text the three methods are these: \<^verbatim>\<open>lower\<close> moves \<^verbatim>\<open>A\<close> to \<^verbatim>\<open>Z\<close> onto
  \<^verbatim>\<open>a\<close> to \<^verbatim>\<open>z\<close>, the digits are \<^verbatim>\<open>0\<close> to \<^verbatim>\<open>9\<close>, and white space is the tab, the
  line feed, the vertical tab, the form feed, the carriage return, the separators 28 to
  31 and the space. \<open>ascii_methods\<close> serves to run the functions on ASCII examples
  only; no general statement below is about it.
\<close>

definition ascii_methods :: python_str where
  "ascii_methods =
     \<lparr>lower = map (\<lambda>c. if 65 \<le> c \<and> c \<le> 90 then c + 32 else c),
      isdigit = (\<lambda>c. 48 \<le> c \<and> c \<le> 57),
      isspace = (\<lambda>c. c \<in> set [9, 10, 11, 12, 13, 28, 29, 30, 31, 32])\<rparr>"

text \<open>\<^verbatim>\<open>k in s\<close> on two strings: \<open>k\<close> occurs in \<open>s\<close> as a contiguous piece.\<close>

fun str_contains :: "str \<Rightarrow> str \<Rightarrow> bool" where
  "str_contains k [] = (k = [])"
| "str_contains k (c # s) = (prefix k (c # s) \<or> str_contains k s)"

section \<open>The keyword table\<close>

text \<open>
  \<^verbatim>\<open>symptoms_db\<close> is the dictionary read from \<^verbatim>\<open>symptoms_db.json\<close>: condition name to
  \<^verbatim>\<open>{'keywords': [...], 'weight': n}\<close>. A Python dictionary iterates in insertion
  order, so the table is an association list; \<^verbatim>\<open>analyze_symptoms\<close> never looks a key up.
  The field \<^verbatim>\<open>'keywords'\<close> is \<open>keyword_list\<close> here.
\<close>

record condition_data =
  keyword_list :: "str list"
  weight :: int

type_synonym symptoms_db = "(str \<times> condition_data) list"

section \<open>The scorer: \<^verbatim>\<open>analyze_symptoms\<close>\<close>

text \<open>
  The inner loop \<^verbatim>\<open>for keyword in data['keywords']\<close>, on the accumulators
  \<^verbatim>\<open>keywords\<close> and \<^verbatim>\<open>score\<close>.
\<close>

fun scan_keywords :: "str \<Rightarrow> int \<Rightarrow> str list \<Rightarrow> str list \<times> int \<Rightarrow> str list \<times> int" where
  "scan_keywords symptoms_lower w [] acc = acc"
| "scan_keywords symptoms_lower w (keyword # rest) (kws, score) =
     scan_keywords symptoms_lower w rest
       (if str_contains keyword symptoms_lower then (kws @ [keyword], score + w)
        else (kws, score))"

text \<open>The outer loop \<^verbatim>\<open>for condition, data in symptoms_db.items()\<close>.\<close>

fun scan_conditions :: "str \<Rightarrow> symptoms_db \<Rightarrow> str list \<times> int \<Rightarrow> str list \<times> int" where
  "scan_conditions symptoms_lower [] acc = acc"
| "scan_conditions symptoms_lower ((condition, data) # rest) acc =
     scan_conditions symptoms_lower rest
       (scan_keywords symptoms_lower (weight data) (keyword_list data) acc)"

text \<open>
  The function returns the pair \<^verbatim>\<open>(keywords, score)\<close>. The line it prints on the
  console before returning is not part of the result and is left out.
\<close>

definition analyze_symptoms :: "python_str \<Rightarrow> str \<Rightarrow> symptoms_db \<Rightarrow> str list \<times> int" where
  "analyze_symptoms py symptoms db = scan_conditions (lower py symptoms) db ([], 0)"

section \<open>The classifier: \<^verbatim>\<open>get_verdict\<close>\<close>

text \<open>
  The three strings the function returns start with a coloured circle: U+1F7E2 (green),
  U+1F7E1 (yellow) and U+1F534 (red).
\<close>

definition green_circle :: str where
  "green_circle = [0x1F7E2]"

definition yellow_circle :: str where
  "yellow_circle = [0x1F7E1]"

definition red_circle :: str where
  "red_circle = [0x1F534]"

definition get_verdict :: "int \<Rightarrow> str" where
  "get_verdict score =
     (if score < 3 then green_circle @ ascii '' Home Care''
      else if 3 \<le> score \<and> score \<le> 5 then yellow_circle @ ascii '' Monitor''
      else red_circle @ ascii '' Urgent Care'')"

text \<open>
  \<^verbatim>\<open>view_history\<close> reads the verdict back from a stored row (\<^verbatim>\<open>log[3]\<close>), chooses
  the circle by comparing it with the bare names, and shows the circle, a space and the
  stored verdict.
\<close>

definition verdict_emoji :: "str \<Rightarrow> str" where
  "verdict_emoji verdict =
     (if verdict = ascii ''Home Care'' then green_circle
      else if verdict = ascii ''Monitor'' then yellow_circle
      else red_circle)"

definition history_verdict :: "str \<Rightarrow> str" where
  "history_verdict verdict = verdict_emoji verdict @ ascii '' '' @ verdict"

section \<open>The specification's reading of the scorer\<close>

text \<open>
  The table as the specification reads it: every pair of a matching keyword and the
  weight of its condition, in iteration order of the table. A keyword matches when it
  occurs in the lower-cased input.
\<close>

definition matching_pairs :: "python_str \<Rightarrow> str \<Rightarrow> symptoms_db \<Rightarrow> (str \<times> int) list" where
  "matching_pairs py symptoms db =
     [(keyword, weight data). (condition, data) \<leftarrow> db, keyword \<leftarrow> keyword_list data,
        str_contains keyword (lower py symptoms)]"

text \<open>
  The specification's case-insensitive substring match: the keyword occurs in the text
  when the case of both is disregarded, that is, once both are lower-cased.
\<close>

definition ci_contains :: "python_str \<Rightarrow> str \<Rightarrow> str \<Rightarrow> bool" where
  "ci_contains py keyword symptoms = str_contains (lower py keyword) (lower py symptoms)"

section \<open>The table loader: \<^verbatim>\<open>load_symptoms_db\<close>\<close>

text \<open>
  An exception of Python carries its message. Opening and parsing the file is the
  environment's part: its outcome is the argument, \<open>Inl\<close> when \<^verbatim>\<open>open\<close> or
  \<^verbatim>\<open>json.load\<close> raised, \<open>Inr\<close> with the parsed table otherwise. The
  \<^verbatim>\<open>except Exception\<close> branch prints the message and returns \<^verbatim>\<open>{}\<close>.
\<close>

datatype py_error = Py_Exception str

definition load_symptoms_db :: "py_error + symptoms_db \<Rightarrow> symptoms_db" where
  "load_symptoms_db loaded = (case loaded of Inr db \<Rightarrow> db | Inl e \<Rightarrow> [])"

section \<open>The input validator: \<^verbatim>\<open>validate_symptoms\<close>\<close>

text \<open>
  \<^verbatim>\<open>len(symptoms) < 3\<close> counts code points;
  \<^verbatim>\<open>any(char.isdigit() for char in symptoms)\<close> asks Python's \<^verbatim>\<open>isdigit\<close> of each.
\<close>

definition validate_symptoms :: "python_str \<Rightarrow> str \<Rightarrow> bool" where
  "validate_symptoms py symptoms =
     (if length symptoms < 3 then False
      else if list_ex (isdigit py) symptoms then False
      else True)"

section \<open>The advice generator: \<^verbatim>\<open>get_gemini_response\<close>\<close>

text \<open>\<^verbatim>\<open>s.strip()\<close> removes the leading and the trailing white space, as \<^verbatim>\<open>isspace\<close>
  has it.\<close>

definition strip :: "python_str \<Rightarrow> str \<Rightarrow> str" where
  "strip py s = rev (dropWhile (isspace py) (rev (dropWhile (isspace py) s)))"

text \<open>
  \<^verbatim>\<open>s.split(sep)\<close>: the pieces of \<open>s\<close> between the occurrences of \<open>sep\<close>, found
  from the left and not overlapping. \<open>cur\<close> is the piece being read. Python raises
  \<^verbatim>\<open>ValueError\<close> on an empty separator, the value \<open>None\<close> here.
\<close>

fun split_from :: "str \<Rightarrow> str \<Rightarrow> str \<Rightarrow> str list" where
  "split_from sep cur [] = [cur]"
| "split_from sep cur (c # s) =
     (if sep \<noteq> [] \<and> prefix sep (c # s)
      then cur # split_from sep [] (drop (length sep) (c # s))
      else split_from sep (cur @ [c]) s)"

definition split_str :: "str \<Rightarrow> str \<Rightarrow> str list option" where
  "split_str s sep = (if sep = [] then None else Some (split_from sep [] s))"

text \<open>
  The two section labels. The first starts with U+1F48A (pill), the second with
  U+1F468 U+200D U+2695 U+FE0F (health worker).
\<close>

definition remedy_label :: str where
  "remedy_label = [0x1F48A] @ ascii '' Remedy:''"

definition doctor_label :: str where
  "doctor_label = [0x1F468, 0x200D, 0x2695, 0xFE0F] @ ascii '' When to see doctor:''"

record advice =
  remedy :: str
  doctor_advice :: str

text \<open>
  \<^verbatim>\<open>text.split(remedy_label)[1].split(doctor_label)[0].strip()\<close>; \<open>None\<close> when an
  index is out of range, which the bare \<^verbatim>\<open>except\<close> around it catches.
\<close>

definition parse_remedy :: "python_str \<Rightarrow> str \<Rightarrow> str option" where
  "parse_remedy py reply =
     (case split_str reply remedy_label of
        Some (before # after # rest) \<Rightarrow>
          (case split_str after doctor_label of
             Some (piece # pieces) \<Rightarrow> Some (strip py piece)
           | _ \<Rightarrow> None)
      | _ \<Rightarrow> None)"

text \<open>\<^verbatim>\<open>text.split(doctor_label)[1].strip()\<close>\<close>

definition parse_doctor_advice :: "python_str \<Rightarrow> str \<Rightarrow> str option" where
  "parse_doctor_advice py reply =
     (case split_str reply doctor_label of
        Some (before # after # rest) \<Rightarrow> Some (strip py after)
      | _ \<Rightarrow> None)"

text \<open>
  The generative model is the global \<^verbatim>\<open>model\<close> of the source, a parameter here: from
  the symptoms and the detected keywords, which the prompt is built from, to
  \<^verbatim>\<open>response.text\<close>, or to the exception that \<^verbatim>\<open>generate_content\<close> or
  \<^verbatim>\<open>response.text\<close> raised.
\<close>

type_synonym generator = "str \<Rightarrow> str list \<Rightarrow> py_error + str"

definition get_gemini_response :: "python_str \<Rightarrow> generator \<Rightarrow> str \<Rightarrow> str list \<Rightarrow> advice" where
  "get_gemini_response py model symptoms kws =
     (case model symptoms kws of
        Inr reply \<Rightarrow>
          \<lparr>remedy =
             (case parse_remedy py reply of
                Some r \<Rightarrow> r
              | None \<Rightarrow> ascii ''Unable to parse remedy from AI response''),
           doctor_advice =
             (case parse_doctor_advice py reply of
                Some d \<Rightarrow> d
              | None \<Rightarrow>
                  ascii ''If symptoms persist or worsen, please consult a healthcare provider'')\<rparr>
      | Inl e \<Rightarrow>
          \<lparr>remedy = ascii ''Error getting AI response. Please try again.'',
           doctor_advice =
             ascii ''If symptoms persist, please consult a healthcare provider.''\<rparr>)"

section \<open>The report: \<^verbatim>\<open>save_log\<close> and \<^verbatim>\<open>report_symptoms\<close>\<close>

text \<open>
  A row of the table \<^verbatim>\<open>sessions\<close>. The source stores the keywords and the response as
  JSON text; the row holds the values. \<^verbatim>\<open>save_log\<close> inserts one row; the time stamp
  it reads from the clock is an argument. The table is the list of its rows in order of
  insertion, and the insertion succeeds: a failure of the database is not modelled.
\<close>

record session_row =
  row_student_id :: str
  row_timestamp :: str
  row_symptoms :: str
  row_keywords :: "str list"
  row_score :: int
  row_verdict :: str
  row_response :: advice

definition save_log ::
  "str \<Rightarrow> str list \<Rightarrow> int \<Rightarrow> str \<Rightarrow> advice \<Rightarrow> str \<Rightarrow> str \<Rightarrow>
     session_row list \<Rightarrow> session_row list" where
  "save_log symptoms kws score verdict response student_id timestamp sessions =
     sessions @
       [\<lparr>row_student_id = student_id, row_timestamp = timestamp, row_symptoms = symptoms,
         row_keywords = kws, row_score = score, row_verdict = verdict,
         row_response = response\<rparr>]"

text \<open>
  The loop \<^verbatim>\<open>while True\<close> of \<^verbatim>\<open>report_symptoms\<close>. The answers the user gives to the
  prompt are the list \<open>answers\<close>, one for each time the prompt is shown; \<open>rejected\<close>
  collects the answers that were refused and asked again. The result is \<open>None\<close> while
  no answer has passed the validator: the loop is still at the prompt.
\<close>

fun report_loop ::
  "python_str \<Rightarrow> symptoms_db \<Rightarrow> generator \<Rightarrow> str \<Rightarrow> str \<Rightarrow> str list \<Rightarrow> str list \<Rightarrow>
     session_row list \<Rightarrow> (str list \<times> session_row list) option" where
  "report_loop py db model student_id timestamp [] rejected sessions = None"
| "report_loop py db model student_id timestamp (symptoms # answers) rejected sessions =
     (if \<not> validate_symptoms py symptoms
      then report_loop py db model student_id timestamp answers (rejected @ [symptoms]) sessions
      else
        (case analyze_symptoms py symptoms db of
           (kws, score) \<Rightarrow>
             let verdict = get_verdict score;
                 response = get_gemini_response py model symptoms kws
             in Some (rejected,
                  save_log symptoms kws score verdict response student_id timestamp sessions)))"

definition report_symptoms ::
  "python_str \<Rightarrow> py_error + symptoms_db \<Rightarrow> generator \<Rightarrow> str \<Rightarrow> str \<Rightarrow> str list \<Rightarrow>
     session_row list \<Rightarrow> (str list \<times> session_row list) option" where
  "report_symptoms py loaded model student_id timestamp answers sessions =
     report_loop py (load_symptoms_db loaded) model student_id timestamp answers [] sessions"

section \<open>Facts about strings\<close>

lemma str_contains_sublist: "str_contains k s \<longleftrightarrow> sublist k s"
  by (induction s) (auto simp: sublist_Cons_right)

lemma str_contains_iff: "str_contains k s \<longleftrightarrow> (\<exists>p q. s = p @ k @ q)"
  by (simp add: str_contains_sublist sublist_def)

lemma str_contains_empty: "str_contains [] s"
  by (simp add: str_contains_sublist)

text \<open>
  \<open>ascii_methods\<close> has the property of \<^verbatim>\<open>str.lower\<close> that the claim on inputs without
  a match needs: what occurs in a lower-cased text is left as it is by \<^verbatim>\<open>lower\<close>.
\<close>

lemma ascii_lower_fixed:
  assumes "str_contains k (lower ascii_methods s)"
  shows "lower ascii_methods k = k"
proof -
  define f :: "nat \<Rightarrow> nat" where "f = (\<lambda>c. if 65 \<le> c \<and> c \<le> 90 then c + 32 else c)"
  have low: "lower ascii_methods = map f"
    by (simp add: ascii_methods_def f_def)
  have idem: "f (f c) = f c" for c
    by (simp add: f_def)
  from assms obtain p q where "map f s = p @ k @ q"
    by (auto simp: str_contains_iff low)
  then obtain us vs where "k @ q = map f vs"
    by (auto simp: map_eq_append_conv)
  then obtain t where "k = map f t"
    by (auto simp: append_eq_map_conv)
  then show ?thesis
    by (simp add: low idem)
qed

lemmas eval_defs = analyze_symptoms_def ascii_methods_def ascii_def get_verdict_def
  green_circle_def yellow_circle_def red_circle_def ci_contains_def

section \<open>The scorer computes the matching pairs\<close>

lemma scan_keywords_eq:
  "scan_keywords low w ks acc =
     (fst acc @ filter (\<lambda>k. str_contains k low) ks,
      snd acc + sum_list (map (\<lambda>k. w) (filter (\<lambda>k. str_contains k low) ks)))"
proof (induction ks arbitrary: acc)
  case Nil
  show ?case by simp
next
  case (Cons k ks)
  obtain m s where acc: "acc = (m, s)" by (cases acc)
  show ?case unfolding acc by (simp add: Cons.IH)
qed

lemma concat_if_singleton:
  "concat (map (\<lambda>x. if P x then [f x] else []) xs) = map f (filter P xs)"
  by (induction xs) simp_all

lemma matching_pairs_Nil: "matching_pairs py symptoms [] = []"
  by (simp add: matching_pairs_def)

lemma matching_pairs_Cons:
  "matching_pairs py symptoms ((c, d) # db) =
     map (\<lambda>k. (k, weight d))
       (filter (\<lambda>k. str_contains k (lower py symptoms)) (keyword_list d))
       @ matching_pairs py symptoms db"
  by (simp add: matching_pairs_def concat_if_singleton)

lemma matching_pairs_append:
  "matching_pairs py symptoms (db1 @ db2) =
     matching_pairs py symptoms db1 @ matching_pairs py symptoms db2"
  by (simp add: matching_pairs_def)

lemma scan_conditions_eq:
  "scan_conditions (lower py symptoms) db acc =
     (fst acc @ map fst (matching_pairs py symptoms db),
      snd acc + sum_list (map snd (matching_pairs py symptoms db)))"
proof (induction db arbitrary: acc)
  case Nil
  show ?case by (simp add: matching_pairs_Nil)
next
  case (Cons p db)
  obtain c d where p: "p = (c, d)" by (cases p)
  show ?case unfolding p
    by (simp add: Cons.IH scan_keywords_eq matching_pairs_Cons comp_def)
qed

lemma analyze_pairs:
  "analyze_symptoms py symptoms db =
     (map fst (matching_pairs py symptoms db), sum_list (map snd (matching_pairs py symptoms db)))"
  by (simp add: analyze_symptoms_def scan_conditions_eq)

lemma matching_keywords:
  "set (fst (analyze_symptoms py symptoms db)) =
     {k. \<exists>c d. (c, d) \<in> set db \<and> k \<in> set (keyword_list d) \<and>
        str_contains k (lower py symptoms)}"
proof -
  have "set (map fst (matching_pairs py symptoms db)) =
     {k. \<exists>c d. (c, d) \<in> set db \<and> k \<in> set (keyword_list d) \<and>
        str_contains k (lower py symptoms)}"
  proof (induction db)
    case Nil
    show ?case by (simp add: matching_pairs_Nil)
  next
    case (Cons p db)
    obtain c d where p: "p = (c, d)" by (cases p)
    have "set (map fst (matching_pairs py symptoms (p # db))) =
        {k \<in> set (keyword_list d). str_contains k (lower py symptoms)}
          \<union> set (map fst (matching_pairs py symptoms db))"
      unfolding p by (auto simp: matching_pairs_Cons)
    then show ?case unfolding Cons.IH p by auto
  qed
  then show ?thesis by (simp add: analyze_pairs)
qed

lemma matching_pairs_weights:
  "set (map snd (matching_pairs py symptoms db)) \<subseteq> (\<lambda>(c, d). weight d) ` set db"
proof (induction db)
  case Nil
  show ?case by (simp add: matching_pairs_Nil)
next
  case (Cons p db)
  obtain c d where p: "p = (c, d)" by (cases p)
  show ?case using Cons.IH unfolding p
    by (auto simp: matching_pairs_Cons)
qed

section \<open>The scorer\<close>

text \<open>
  C1. For every table and every input, \<open>analyze_symptoms\<close> returns the matching
  keywords in iteration order of the table, and as score the sum of the weights over
  the pairs of a condition and one of its keywords that occurs in the lower-cased
  input. A keyword that two conditions share counts once for each: it is listed twice
  and both weights are added.
\<close>

theorem analyze_symptoms_sum:
  "analyze_symptoms py symptoms db =
     (map fst (matching_pairs py symptoms db),
      sum_list (map snd (matching_pairs py symptoms db)))
   \<and> analyze_symptoms py symptoms
        [(c1, \<lparr>keyword_list = [k], weight = w1\<rparr>), (c2, \<lparr>keyword_list = [k], weight = w2\<rparr>)] =
       (if str_contains k (lower py symptoms) then ([k, k], w1 + w2) else ([], 0))"
  by (simp add: analyze_pairs matching_pairs_Cons matching_pairs_Nil)




section \<open>The classifier\<close>

lemma get_verdict_cases:
  "(score < 3 \<longrightarrow> get_verdict score = green_circle @ ascii '' Home Care'') \<and>
   (3 \<le> score \<and> score \<le> 5 \<longrightarrow> get_verdict score = yellow_circle @ ascii '' Monitor'') \<and>
   (5 < score \<longrightarrow> get_verdict score = red_circle @ ascii '' Urgent Care'')"
  by (simp add: get_verdict_def)

text \<open>
  No string that \<open>get_verdict\<close> returns is one of the bare names \<^verbatim>\<open>view_history\<close>
  compares with, so the history shows the red circle before every stored verdict.
\<close>

lemma verdict_emoji_get_verdict: "verdict_emoji (get_verdict score) = red_circle"
  by (simp add: verdict_emoji_def get_verdict_def green_circle_def yellow_circle_def
      red_circle_def ascii_def)

text \<open>
  C2. The code at the scores 2, 3, 5 and 6: the bands and their boundaries are the
  claim's, and each string returned is the name of the band after a coloured circle
  and a space, not the bare name, which is what \<^verbatim>\<open>view_history\<close> compares the stored
  verdict with: for the verdict of the score 2 it would show the red circle, a space,
  the green circle and \<open>Home Care\<close>.
\<close>

theorem get_verdict_boundary_values:
  "get_verdict 2 = green_circle @ ascii '' Home Care'' \<and>
   get_verdict 3 = yellow_circle @ ascii '' Monitor'' \<and>
   get_verdict 5 = yellow_circle @ ascii '' Monitor'' \<and>
   get_verdict 6 = red_circle @ ascii '' Urgent Care'' \<and>
   get_verdict 2 \<noteq> ascii ''Home Care'' \<and>
   get_verdict 3 \<noteq> ascii ''Monitor'' \<and>
   get_verdict 5 \<noteq> ascii ''Monitor'' \<and>
   get_verdict 6 \<noteq> ascii ''Urgent Care'' \<and>
   history_verdict (get_verdict 2) = red_circle @ ascii '' '' @ green_circle @ ascii '' Home Care''"
  by (simp add: history_verdict_def verdict_emoji_def get_verdict_def green_circle_def
      yellow_circle_def red_circle_def ascii_def)

text \<open>
  C4. The code on the scenario: the matched keywords are \<open>fever\<close>, \<open>cough\<close> in this
  order and the score is 3, as claimed; the verdict of that score is the yellow circle,
  a space and \<open>Monitor\<close>, not the bare name.
\<close>

theorem scenario_fever_cough:
  "analyze_symptoms ascii_methods (ascii ''I have a fever and a cough'')
     [(ascii ''fever'', \<lparr>keyword_list = [ascii ''fever'', ascii ''chills''], weight = 2\<rparr>),
      (ascii ''cold'', \<lparr>keyword_list = [ascii ''cough''], weight = 1\<rparr>)] =
     ([ascii ''fever'', ascii ''cough''], 3) \<and>
   get_verdict 3 = yellow_circle @ ascii '' Monitor'' \<and>
   get_verdict 3 \<noteq> ascii ''Monitor''"
  by (simp add: eval_defs)

text \<open>
  C6. The code when loading the table fails: \<open>load_symptoms_db\<close> returns the empty
  table, and on it every input gives no matched keyword and the score 0, as claimed;
  the verdict of that score is the green circle, a space and \<open>Home Care\<close>, not the
  bare name.
\<close>

theorem load_failure_empty_table:
  "load_symptoms_db (Inl e) = [] \<and>
   analyze_symptoms py symptoms (load_symptoms_db (Inl e)) = ([], 0) \<and>
   get_verdict (snd (analyze_symptoms py symptoms (load_symptoms_db (Inl e)))) =
     green_circle @ ascii '' Home Care'' \<and>
   get_verdict (snd (analyze_symptoms py symptoms (load_symptoms_db (Inl e)))) \<noteq>
     ascii ''Home Care''"
  by (simp add: load_symptoms_db_def analyze_symptoms_def get_verdict_def green_circle_def
      ascii_def)

text \<open>
  C5. When no keyword of the table occurs in the input up to case, \<open>analyze_symptoms\<close>
  returns the empty list and the score 0. It is an ordinary result: the function has
  no failing branch. The first hypothesis is a property of \<^verbatim>\<open>str.lower\<close>: what occurs
  in a lower-cased text is left as it is by lower-casing.
\<close>

theorem no_match_empty_result:
  assumes "\<forall>s k. str_contains k (lower py s) \<longrightarrow> lower py k = k"
    and "\<forall>(c, d) \<in> set db. \<forall>k \<in> set (keyword_list d). \<not> ci_contains py k symptoms"
  shows "analyze_symptoms py symptoms db = ([], 0)"
proof -
  have "\<not> str_contains k (lower py symptoms)"
    if "(c, d) \<in> set db" and "k \<in> set (keyword_list d)" for c d k
  proof
    assume occurs: "str_contains k (lower py symptoms)"
    with assms(1) have "lower py k = k" by blast
    with occurs have "ci_contains py k symptoms" by (simp add: ci_contains_def)
    with assms(2) that show False by blast
  qed
  then have "set (fst (analyze_symptoms py symptoms db)) = {}"
    unfolding matching_keywords by blast
  then have "matching_pairs py symptoms db = []"
    by (simp add: analyze_pairs)
  then show ?thesis
    by (simp add: analyze_pairs)
qed

theorem no_match_empty_result_witness:
  "\<not> ci_contains ascii_methods (ascii ''fever'') (ascii ''My head hurts'') \<and>
   \<not> ci_contains ascii_methods (ascii ''chills'') (ascii ''My head hurts'') \<and>
   \<not> ci_contains ascii_methods (ascii ''cough'') (ascii ''My head hurts'') \<and>
   analyze_symptoms ascii_methods (ascii ''My head hurts'')
     [(ascii ''fever'', \<lparr>keyword_list = [ascii ''fever'', ascii ''chills''], weight = 2\<rparr>),
      (ascii ''cold'', \<lparr>keyword_list = [ascii ''cough''], weight = 1\<rparr>)] = ([], 0)"
proof -
  have stable: "\<forall>s k. str_contains k (lower ascii_methods s) \<longrightarrow> lower ascii_methods k = k"
    using ascii_lower_fixed by blast
  have none:
    "\<not> ci_contains ascii_methods (ascii ''fever'') (ascii ''My head hurts'') \<and>
     \<not> ci_contains ascii_methods (ascii ''chills'') (ascii ''My head hurts'') \<and>
     \<not> ci_contains ascii_methods (ascii ''cough'') (ascii ''My head hurts'')"
    by (simp add: eval_defs)
  then have "\<forall>(c, d) \<in> set
       [(ascii ''fever'', \<lparr>keyword_list = [ascii ''fever'', ascii ''chills''], weight = 2\<rparr>),
        (ascii ''cold'', \<lparr>keyword_list = [ascii ''cough''], weight = 1\<rparr>)].
     \<forall>k \<in> set (keyword_list d). \<not> ci_contains ascii_methods k (ascii ''My head hurts'')"
    by simp
  from no_match_empty_result [OF stable this] none show ?thesis
    by simp
qed

text \<open>
  C9. When no weight of the table is negative, the score is not negative.
\<close>

theorem score_nonnegative:
  assumes "\<forall>(c, d) \<in> set db. 0 \<le> weight d"
  shows "0 \<le> snd (analyze_symptoms py symptoms db)"
proof -
  have "0 \<le> x" if "x \<in> set (map snd (matching_pairs py symptoms db))" for x
  proof -
    from that matching_pairs_weights have "x \<in> (\<lambda>(c, d). weight d) ` set db"
      by blast
    with assms show ?thesis by auto
  qed
  then have "0 \<le> sum_list (map snd (matching_pairs py symptoms db))"
    by (rule sum_list_nonneg)
  then show ?thesis
    by (simp add: analyze_pairs)
qed

theorem score_nonnegative_witness:
  "0 \<le> weight \<lparr>keyword_list = [ascii ''fever'', ascii ''chills''], weight = 2\<rparr> \<and>
   0 \<le> weight \<lparr>keyword_list = [ascii ''slept''], weight = 0\<rparr> \<and>
   snd (analyze_symptoms ascii_methods (ascii ''Fever, but I slept'')
     [(ascii ''fever'', \<lparr>keyword_list = [ascii ''fever'', ascii ''chills''], weight = 2\<rparr>),
      (ascii ''rest'', \<lparr>keyword_list = [ascii ''slept''], weight = 0\<rparr>)]) = 2 \<and>
   (0::int) \<le> 2"
  using score_nonnegative [where db =
     "[(ascii ''fever'', \<lparr>keyword_list = [ascii ''fever'', ascii ''chills''], weight = 2\<rparr>),
       (ascii ''rest'', \<lparr>keyword_list = [ascii ''slept''], weight = 0\<rparr>)]"
     and py = ascii_methods and symptoms = "ascii ''Fever, but I slept''"]
  by (simp add: eval_defs)

text \<open>
  C10. An empty keyword matches every input, the empty input too: it is in the matched
  list, and the score is the score of the table without that keyword plus the weight
  of its condition.
\<close>

theorem empty_keyword_always_matches:
  assumes "(c, d) \<in> set db" and "[] \<in> set (keyword_list d)"
  shows "[] \<in> set (fst (analyze_symptoms py symptoms db)) \<and>
         (\<exists>pre post ks1 ks2.
            db = pre @ (c, d) # post \<and> keyword_list d = ks1 @ [] # ks2 \<and>
            snd (analyze_symptoms py symptoms db) =
              snd (analyze_symptoms py symptoms
                     (pre @ (c, d\<lparr>keyword_list := ks1 @ ks2\<rparr>) # post))
                + weight d) \<and>
         analyze_symptoms py symptoms [(c, \<lparr>keyword_list = [[]], weight = w\<rparr>)] = ([[]], w)"
proof -
  have 1: "[] \<in> set (fst (analyze_symptoms py symptoms db))"
    using assms str_contains_empty by (auto simp: matching_keywords)
  from assms(1) obtain pre post where db: "db = pre @ (c, d) # post"
    by (auto simp: in_set_conv_decomp)
  from assms(2) obtain ks1 ks2 where ks: "keyword_list d = ks1 @ [] # ks2"
    by (auto simp: in_set_conv_decomp)
  have "snd (analyze_symptoms py symptoms db) =
      snd (analyze_symptoms py symptoms (pre @ (c, d\<lparr>keyword_list := ks1 @ ks2\<rparr>) # post))
        + weight d"
    unfolding db
    by (simp add: analyze_pairs matching_pairs_append matching_pairs_Cons ks str_contains_empty)
  with db ks have 2: "\<exists>pre post ks1 ks2.
            db = pre @ (c, d) # post \<and> keyword_list d = ks1 @ [] # ks2 \<and>
            snd (analyze_symptoms py symptoms db) =
              snd (analyze_symptoms py symptoms
                     (pre @ (c, d\<lparr>keyword_list := ks1 @ ks2\<rparr>) # post))
                + weight d"
    by blast
  have 3: "analyze_symptoms py symptoms [(c, \<lparr>keyword_list = [[]], weight = w\<rparr>)] = ([[]], w)"
    by (simp add: analyze_pairs matching_pairs_Cons matching_pairs_Nil str_contains_empty)
  from 1 2 3 show ?thesis by simp
qed

theorem empty_keyword_always_matches_witness:
  "(ascii ''any'', \<lparr>keyword_list = [ascii ''fever'', []], weight = 4\<rparr>)
      \<in> set [(ascii ''any'', \<lparr>keyword_list = [ascii ''fever'', []], weight = 4\<rparr>)] \<and>
   [] \<in> set (keyword_list \<lparr>keyword_list = [ascii ''fever'', []], weight = 4\<rparr>) \<and>
   analyze_symptoms ascii_methods []
     [(ascii ''any'', \<lparr>keyword_list = [ascii ''fever'', []], weight = 4\<rparr>)] = ([[]], 4) \<and>
   [] \<in> set (fst (analyze_symptoms ascii_methods []
     [(ascii ''any'', \<lparr>keyword_list = [ascii ''fever'', []], weight = 4\<rparr>)]))"
  using empty_keyword_always_matches [where c = "ascii ''any''"
     and d = "\<lparr>keyword_list = [ascii ''fever'', []], weight = 4\<rparr>"
     and db = "[(ascii ''any'', \<lparr>keyword_list = [ascii ''fever'', []], weight = 4\<rparr>)]"
     and py = ascii_methods and symptoms = "[]"]
  by (simp add: eval_defs)

section \<open>The report loop\<close>

lemma validate_symptoms_digits:
  "\<not> validate_symptoms py s \<longleftrightarrow> length s < 3 \<or> (\<exists>ch \<in> set s. isdigit py ch)"
  by (simp add: validate_symptoms_def list_ex_iff)

lemma report_loop_refused:
  "\<not> validate_symptoms py s \<Longrightarrow>
      report_loop py db model sid ts (s # answers) rejected sessions =
        report_loop py db model sid ts answers (rejected @ [s]) sessions"
  by simp

lemma report_loop_None:
  "report_loop py db model sid ts answers rejected sessions = None \<longleftrightarrow>
     (\<forall>a \<in> set answers. \<not> validate_symptoms py a)"
  by (induction answers arbitrary: rejected) (auto split: prod.splits simp: Let_def)

lemma report_loop_Some:
  assumes "report_loop py db model sid ts answers rejected sessions = Some (rejected', sessions')"
  shows "\<exists>refused s rest.
           rejected' = rejected @ refused \<and> answers = refused @ s # rest \<and>
           (\<forall>r \<in> set refused. \<not> validate_symptoms py r) \<and> validate_symptoms py s \<and>
           sessions' =
             save_log s (fst (analyze_symptoms py s db)) (snd (analyze_symptoms py s db))
               (get_verdict (snd (analyze_symptoms py s db)))
               (get_gemini_response py model s (fst (analyze_symptoms py s db))) sid ts sessions"
  using assms
proof (induction answers arbitrary: rejected)
  case Nil
  then show ?case by simp
next
  case (Cons a answers)
  show ?case
  proof (cases "validate_symptoms py a")
    case True
    with Cons.prems have "rejected' = rejected \<and>
        sessions' = save_log a (fst (analyze_symptoms py a db)) (snd (analyze_symptoms py a db))
               (get_verdict (snd (analyze_symptoms py a db)))
               (get_gemini_response py model a (fst (analyze_symptoms py a db))) sid ts sessions"
      by (auto split: prod.splits simp: Let_def)
    with True show ?thesis
      by (intro exI [of _ "[]"] exI [of _ a] exI [of _ answers]) simp
  next
    case False
    with Cons.prems
    have "report_loop py db model sid ts answers (rejected @ [a]) sessions =
        Some (rejected', sessions')"
      by simp
    from Cons.IH [OF this] obtain refused s rest where
      "rejected' = (rejected @ [a]) @ refused" "answers = refused @ s # rest"
      "\<forall>r \<in> set refused. \<not> validate_symptoms py r" "validate_symptoms py s"
      "sessions' = save_log s (fst (analyze_symptoms py s db)) (snd (analyze_symptoms py s db))
               (get_verdict (snd (analyze_symptoms py s db)))
               (get_gemini_response py model s (fst (analyze_symptoms py s db))) sid ts sessions"
      by blast
    with False show ?thesis
      by (intro exI [of _ "a # refused"] exI [of _ s] exI [of _ rest]) simp
  qed
qed

lemmas report_defs = report_symptoms_def load_symptoms_db_def validate_symptoms_def
  save_log_def get_gemini_response_def

text \<open>
  C7. The validator refuses a text if and only if it has fewer than 3 characters or a
  character that is a digit. A refused answer is put aside and the prompt is shown
  again. The loop stays at the prompt as long as every answer is refused; when it ends,
  the answers before the last were all refused, the last one was accepted, and the
  scorer ran on it alone: the row saved holds its keywords and score.
\<close>

theorem validator_gate:
  "(\<not> validate_symptoms py s \<longleftrightarrow> length s < 3 \<or> (\<exists>ch \<in> set s. isdigit py ch)) \<and>
   (\<not> validate_symptoms py s \<longrightarrow>
      report_loop py db model sid ts (s # answers) rejected sessions =
        report_loop py db model sid ts answers (rejected @ [s]) sessions) \<and>
   (report_symptoms py loaded model sid ts answers sessions = None \<longleftrightarrow>
      (\<forall>a \<in> set answers. \<not> validate_symptoms py a)) \<and>
   (\<forall>refused sessions'.
      report_symptoms py loaded model sid ts answers sessions = Some (refused, sessions') \<longrightarrow>
      (\<exists>a rest.
         answers = refused @ a # rest \<and>
         (\<forall>r \<in> set refused. \<not> validate_symptoms py r) \<and> validate_symptoms py a \<and>
         sessions' =
           save_log a (fst (analyze_symptoms py a (load_symptoms_db loaded)))
             (snd (analyze_symptoms py a (load_symptoms_db loaded)))
             (get_verdict (snd (analyze_symptoms py a (load_symptoms_db loaded))))
             (get_gemini_response py model a
                (fst (analyze_symptoms py a (load_symptoms_db loaded))))
             sid ts sessions))"
  (is "?digits \<and> ?again \<and> ?waiting \<and> ?scored")
proof -
  have 1: ?digits
    by (rule validate_symptoms_digits)
  have 2: ?again
    using report_loop_refused by blast
  have 3: ?waiting
    unfolding report_symptoms_def by (rule report_loop_None)
  have 4: ?scored
  proof (intro allI impI)
    fix refused sessions'
    assume "report_symptoms py loaded model sid ts answers sessions = Some (refused, sessions')"
    then have "report_loop py (load_symptoms_db loaded) model sid ts answers [] sessions =
        Some (refused, sessions')"
      by (simp only: report_symptoms_def)
    from report_loop_Some [OF this]
    obtain rf a rest where rf: "refused = [] @ rf" and r: "answers = rf @ a # rest"
      "\<forall>r \<in> set rf. \<not> validate_symptoms py r" "validate_symptoms py a"
      "sessions' =
           save_log a (fst (analyze_symptoms py a (load_symptoms_db loaded)))
             (snd (analyze_symptoms py a (load_symptoms_db loaded)))
             (get_verdict (snd (analyze_symptoms py a (load_symptoms_db loaded))))
             (get_gemini_response py model a
                (fst (analyze_symptoms py a (load_symptoms_db loaded))))
             sid ts sessions"
      by blast
    from rf have "rf = refused" by simp
    with r show "\<exists>a rest.
         answers = refused @ a # rest \<and>
         (\<forall>r \<in> set refused. \<not> validate_symptoms py r) \<and> validate_symptoms py a \<and>
         sessions' =
           save_log a (fst (analyze_symptoms py a (load_symptoms_db loaded)))
             (snd (analyze_symptoms py a (load_symptoms_db loaded)))
             (get_verdict (snd (analyze_symptoms py a (load_symptoms_db loaded))))
             (get_gemini_response py model a
                (fst (analyze_symptoms py a (load_symptoms_db loaded))))
             sid ts sessions"
      by blast
  qed
  from 1 2 3 4 show ?thesis
    by (intro conjI)
qed

theorem validator_gate_witness:
  "\<not> validate_symptoms ascii_methods (ascii ''ab'') \<and>
   \<not> validate_symptoms ascii_methods (ascii ''flu 2'') \<and>
   validate_symptoms ascii_methods (ascii ''I have a fever'') \<and>
   report_symptoms ascii_methods
     (Inr [(ascii ''fever'', \<lparr>keyword_list = [ascii ''fever'', ascii ''chills''], weight = 2\<rparr>)])
     (\<lambda>s k. Inl (Py_Exception (ascii ''unavailable''))) (ascii ''S1'')
     (ascii ''2024-01-01 10:00:00'')
     [ascii ''ab'', ascii ''flu 2'', ascii ''I have a fever'', ascii ''later''] [] =
   Some ([ascii ''ab'', ascii ''flu 2''],
     [\<lparr>row_student_id = ascii ''S1'', row_timestamp = ascii ''2024-01-01 10:00:00'',
       row_symptoms = ascii ''I have a fever'', row_keywords = [ascii ''fever''],
       row_score = 2, row_verdict = green_circle @ ascii '' Home Care'',
       row_response =
         \<lparr>remedy = ascii ''Error getting AI response. Please try again.'',
          doctor_advice =
            ascii ''If symptoms persist, please consult a healthcare provider.''\<rparr>\<rparr>])"
  using validator_gate [where py = ascii_methods and s = "ascii ''ab''" and db = "[]"
      and model = "\<lambda>s k. Inl (Py_Exception (ascii ''unavailable''))" and sid = "ascii ''S1''"
      and ts = "ascii ''2024-01-01 10:00:00''"
      and answers = "[ascii ''ab'', ascii ''flu 2'', ascii ''I have a fever'', ascii ''later'']"
      and rejected = "[]" and sessions = "[]"
      and loaded = "Inr [(ascii ''fever'',
         \<lparr>keyword_list = [ascii ''fever'', ascii ''chills''], weight = 2\<rparr>)]"]
  by (simp add: report_defs eval_defs)

section \<open>The advice generator's fallbacks\<close>






text \<open>A response with both labels is cut at the labels, and the pieces stripped.\<close>

lemma get_gemini_response_example:
  "get_gemini_response ascii_methods
     (\<lambda>s k. Inr (remedy_label @ ascii '' Rest and drink water. '' @ doctor_label @
        ascii '' After three days.''))
     (ascii ''I have a fever'') [ascii ''fever''] =
   \<lparr>remedy = ascii ''Rest and drink water.'', doctor_advice = ascii ''After three days.''\<rparr>"
  by (simp add: get_gemini_response_def parse_remedy_def parse_doctor_advice_def split_str_def
      remedy_label_def doctor_label_def strip_def ascii_methods_def ascii_def)



end
